theory Spec2Isabelle
  imports Main "HOL-Library.AList"
begin

section \<open>Python values\<close>

text \<open>
  A Python \<open>str\<close> is a sequence of Unicode code points, so it is modelled as a list of
  natural numbers; \<open>lit\<close> turns a literal of the source into that form.
\<close>

type_synonym pystr = "nat list"

definition lit :: "string \<Rightarrow> pystr" where
  "lit cs = map of_char cs"

text \<open>
  The exceptions that the modelled code can raise or let through. \<open>External\<close> stands for
  whatever an outside collaborator raises (the text generation pipeline, the HTTP client);
  it carries the text \<open>str(e)\<close> gives.
\<close>

datatype exn =
    HTTPException nat pystr
  | JSONDecodeError pystr
  | OSError pystr
  | AttributeError pystr
  | IndexError pystr
  | KeyError pystr
  | TypeError pystr
  | ValidationError pystr
  | RecursionError
  | External pystr

fun str_exn :: "exn \<Rightarrow> pystr" where
  "str_exn (HTTPException c d) = d"
| "str_exn (JSONDecodeError m) = m"
| "str_exn (OSError m) = m"
| "str_exn (AttributeError m) = m"
| "str_exn (IndexError m) = m"
| "str_exn (KeyError m) = m"
| "str_exn (TypeError m) = m"
| "str_exn (ValidationError m) = m"
| "str_exn RecursionError = lit ''maximum recursion depth exceeded''"
| "str_exn (External m) = m"

text \<open>
  The values \<open>json.load\<close> can return and \<open>json.dump\<close> can write. A dict keeps its
  insertion order, so it is an association list. A float is kept as the text it was read
  from.
\<close>

datatype json =
    JNull
  | JBool bool
  | JInt int
  | JFloat pystr
  | JStr pystr
  | JArr "json list"
  | JObj "(pystr \<times> json) list"

text \<open>\<open>str.isspace\<close> on one code point, and \<open>str.strip()\<close>.\<close>

definition isspace :: "nat \<Rightarrow> bool" where
  "isspace c \<longleftrightarrow>
     (9 \<le> c \<and> c \<le> 13) \<or> (28 \<le> c \<and> c \<le> 32) \<or> c = 133 \<or> c = 160 \<or> c = 5760 \<or>
     (8192 \<le> c \<and> c \<le> 8202) \<or> c = 8232 \<or> c = 8233 \<or> c = 8239 \<or> c = 8287 \<or> c = 12288"

definition strip :: "pystr \<Rightarrow> pystr" where
  "strip s = rev (dropWhile isspace (rev (dropWhile isspace s)))"

text \<open>\<open>xs.append(x)\<close>: only a list has the method.\<close>

fun py_append :: "json \<Rightarrow> json \<Rightarrow> exn + json" where
  "py_append (JArr xs) x = Inr (JArr (xs @ [x]))"
| "py_append v x = Inl (AttributeError (lit ''object has no attribute append''))"

text \<open>\<open>list(v)\<close>: the elements of a list, the keys of a dict, the characters of a str.\<close>

fun py_list :: "json \<Rightarrow> exn + json list" where
  "py_list (JArr xs) = Inr xs"
| "py_list (JObj kvs) = Inr (map (\<lambda>kv. JStr (fst kv)) kvs)"
| "py_list (JStr s) = Inr (map (\<lambda>c. JStr [c]) s)"
| "py_list v = Inl (TypeError (lit ''object is not iterable''))"

section \<open>The bot agent\<close>

record BotConfig =
  name :: pystr
  persona :: pystr
  max_length :: int

text \<open>
  The text generation pipeline is an outside capability: called with the full prompt and
  the length bound it raises or returns a list of dicts.
\<close>

type_synonym Pipeline = "pystr \<Rightarrow> int \<Rightarrow> exn + (pystr \<times> json) list list"

text \<open>
  \<open>history\<close> is whatever object the attribute holds: \<open>__init__\<close> binds it to the empty
  list, \<open>create_bot\<close> and \<open>deploy_bot\<close> rebind it to the value read from the history file.
\<close>

record BotInstance =
  cfg :: BotConfig
  pipeline :: "Pipeline option"
  history :: json

definition user_entry :: "pystr \<Rightarrow> json" where
  "user_entry prompt = JObj [(lit ''role'', JStr (lit ''user'')), (lit ''text'', JStr prompt)]"

definition bot_entry :: "pystr \<Rightarrow> json" where
  "bot_entry reply = JObj [(lit ''role'', JStr (lit ''bot'')), (lit ''text'', JStr reply)]"

definition fallback_reply :: pystr where
  "fallback_reply = lit ''Model not available.''"

definition full_prompt :: "BotConfig \<Rightarrow> pystr \<Rightarrow> pystr" where
  "full_prompt c prompt = persona c @ lit ''\<newline>User: '' @ prompt @ lit ''\<newline>Assistant:''"

text \<open>\<open>out[0]["generated_text"].strip()\<close>\<close>

definition generated_reply :: "(pystr \<times> json) list list \<Rightarrow> exn + pystr" where
  "generated_reply out =
     (case out of
        [] \<Rightarrow> Inl (IndexError (lit ''list index out of range''))
      | d # ds \<Rightarrow>
          (case map_of d (lit ''generated_text'') of
             None \<Rightarrow> Inl (KeyError (lit ''generated_text''))
           | Some (JStr t) \<Rightarrow> Inr (strip t)
           | Some v \<Rightarrow> Inl (AttributeError (lit ''object has no attribute strip''))))"

text \<open>
  \<open>BotInstance.chat\<close>. The result pairs what the call returns or raises with the agent
  as the call leaves it: an exception does not undo the appends made before it.
\<close>

definition chat :: "BotInstance \<Rightarrow> pystr \<Rightarrow> (exn + pystr) \<times> BotInstance" where
  "chat self prompt =
     (case py_append (history self) (user_entry prompt) of
        Inl e \<Rightarrow> (Inl e, self)
      | Inr h1 \<Rightarrow>
          (let self1 = self\<lparr>history := h1\<rparr>;
               r = (case pipeline self1 of
                      None \<Rightarrow> Inr fallback_reply
                    | Some p \<Rightarrow>
                        (case p (full_prompt (cfg self1) prompt) (max_length (cfg self1)) of
                           Inl e \<Rightarrow> Inl e
                         | Inr out \<Rightarrow> generated_reply out))
           in case r of
                Inl e \<Rightarrow> (Inl e, self1)
              | Inr reply \<Rightarrow>
                  (case py_append (history self1) (bot_entry reply) of
                     Inl e \<Rightarrow> (Inl e, self1)
                   | Inr h2 \<Rightarrow> (Inr reply, self1\<lparr>history := h2\<rparr>))))"

definition get_history :: "BotInstance \<Rightarrow> exn + json list" where
  "get_history self = py_list (history self)"

section \<open>The json module\<close>

text \<open>
  \<open>json.dump\<close> and \<open>json.load\<close> are the standard library's, not this repository's.
  They are modelled here as CPython implements them, on the value type above, because
  the persistence functions below are nothing but calls of them on a file.
  Code points used below: 34 is the double quote, 92 the backslash, 32 the space,
  10 the line feed, 44 the comma, 58 the colon, 91 and 93 the square brackets, 123 and
  125 the braces, 45 the minus sign, 48 to 57 the digits.
\<close>

subsection \<open>Writing\<close>

function str_nat :: "nat \<Rightarrow> pystr" where
  "str_nat n = (if n < 10 then [48 + n] else str_nat (n div 10) @ [48 + n mod 10])"
  by pat_completeness auto
termination
  by (relation "measure id") auto

definition str_int :: "int \<Rightarrow> pystr" where
  "str_int i = (if i < 0 then 45 # str_nat (nat (- i)) else str_nat (nat i))"

definition hexdigit :: "nat \<Rightarrow> nat" where
  "hexdigit d = (if d < 10 then 48 + d else 87 + d)"

definition hex4 :: "nat \<Rightarrow> pystr" where
  "hex4 n = [hexdigit (n div 4096 mod 16), hexdigit (n div 256 mod 16),
             hexdigit (n div 16 mod 16), hexdigit (n mod 16)]"

text \<open>
  The replacement \<open>encode_basestring_ascii\<close> makes for one code point: the short
  escapes, the printable ASCII characters as they are, \<open>\uXXXX\<close> for the rest of
  the basic plane and a surrogate pair above it.
\<close>

definition escape_char :: "nat \<Rightarrow> pystr" where
  "escape_char c =
     (if c = 34 then [92, 34]
      else if c = 92 then [92, 92]
      else if c = 10 then [92, 110]
      else if c = 13 then [92, 114]
      else if c = 9 then [92, 116]
      else if c = 8 then [92, 98]
      else if c = 12 then [92, 102]
      else if 32 \<le> c \<and> c \<le> 126 then [c]
      else if c < 65536 then [92, 117] @ hex4 c
      else (let v = c - 65536
            in [92, 117] @ hex4 (55296 + v div 1024 mod 1024) @
               [92, 117] @ hex4 (56320 + v mod 1024)))"

definition encode_basestring_ascii :: "pystr \<Rightarrow> pystr" where
  "encode_basestring_ascii s = 34 # concat (map escape_char s) @ [34]"

fun join :: "pystr \<Rightarrow> pystr list \<Rightarrow> pystr" where
  "join sep [] = []"
| "join sep [x] = x"
| "join sep (x # y # ys) = x @ sep @ join sep (y # ys)"

text \<open>
  With \<open>indent\<close> given, every item starts on a line of its own, indented by its nesting
  level, and the item separator is a bare comma; without it everything is on one line
  and the items are separated by a comma and a space.
\<close>

definition newline_indent :: "nat option \<Rightarrow> nat \<Rightarrow> pystr" where
  "newline_indent indent level =
     (case indent of None \<Rightarrow> [] | Some k \<Rightarrow> 10 # replicate (k * level) 32)"

definition item_separator :: "nat option \<Rightarrow> pystr" where
  "item_separator indent = (case indent of None \<Rightarrow> [44, 32] | Some k \<Rightarrow> [44])"

fun iterencode :: "nat option \<Rightarrow> nat \<Rightarrow> json \<Rightarrow> pystr" where
  "iterencode indent level JNull = lit ''null''"
| "iterencode indent level (JBool b) = (if b then lit ''true'' else lit ''false'')"
| "iterencode indent level (JInt i) = str_int i"
| "iterencode indent level (JFloat l) = l"
| "iterencode indent level (JStr s) = encode_basestring_ascii s"
| "iterencode indent level (JArr xs) =
     (if xs = [] then lit ''[]''
      else [91] @ newline_indent indent (Suc level) @
           join (item_separator indent @ newline_indent indent (Suc level))
             (map (iterencode indent (Suc level)) xs) @
           newline_indent indent level @ [93])"
| "iterencode indent level (JObj kvs) =
     (if kvs = [] then lit ''{}''
      else [123] @ newline_indent indent (Suc level) @
           join (item_separator indent @ newline_indent indent (Suc level))
             (map (\<lambda>kv. encode_basestring_ascii (fst kv) @ [58, 32] @
                         iterencode indent (Suc level) (snd kv)) kvs) @
           newline_indent indent level @ [125])"

definition json_dumps :: "nat option \<Rightarrow> json \<Rightarrow> pystr" where
  "json_dumps indent v = iterencode indent 0 v"

subsection \<open>Reading\<close>

definition is_ws :: "nat \<Rightarrow> bool" where
  "is_ws c \<longleftrightarrow> c = 32 \<or> c = 9 \<or> c = 10 \<or> c = 13"

definition skip_ws :: "pystr \<Rightarrow> pystr" where
  "skip_ws s = dropWhile is_ws s"

definition is_digit :: "nat \<Rightarrow> bool" where
  "is_digit c \<longleftrightarrow> 48 \<le> c \<and> c \<le> 57"

definition unhex :: "nat \<Rightarrow> nat option" where
  "unhex c =
     (if 48 \<le> c \<and> c \<le> 57 then Some (c - 48)
      else if 97 \<le> c \<and> c \<le> 102 then Some (c - 87)
      else if 65 \<le> c \<and> c \<le> 70 then Some (c - 55)
      else None)"

text \<open>The four hexadecimal digits after \<open>\u\<close>, and what follows them.\<close>

definition decode_uXXXX :: "pystr \<Rightarrow> (nat \<times> pystr) option" where
  "decode_uXXXX s =
     (case s of
        a # b # c # d # r \<Rightarrow>
          (case (unhex a, unhex b, unhex c, unhex d) of
             (Some x3, Some x2, Some x1, Some x0) \<Rightarrow>
               Some (((x3 * 16 + x2) * 16 + x1) * 16 + x0, r)
           | _ \<Rightarrow> None)
      | _ \<Rightarrow> None)"

definition backslash :: "nat \<Rightarrow> nat option" where
  "backslash e =
     (if e = 34 then Some 34
      else if e = 92 then Some 92
      else if e = 47 then Some 47
      else if e = 98 then Some 8
      else if e = 102 then Some 12
      else if e = 110 then Some 10
      else if e = 114 then Some 13
      else if e = 116 then Some 9
      else None)"

definition cons_result :: "nat \<Rightarrow> exn + pystr \<times> pystr \<Rightarrow> exn + pystr \<times> pystr" where
  "cons_result c r = (case r of Inl e \<Rightarrow> Inl e | Inr (t, rest) \<Rightarrow> Inr (c # t, rest))"

text \<open>
  \<open>scanstring\<close> in strict mode, started after the opening quote: the decoded string and
  the input after the closing quote. A high surrogate directly followed by an escaped
  low surrogate is joined with it into one code point.
\<close>

function scanstring :: "pystr \<Rightarrow> exn + pystr \<times> pystr" where
  "scanstring [] = Inl (JSONDecodeError (lit ''Unterminated string starting at''))"
| "scanstring (c # cs) =
     (if c = 34 then Inr ([], cs)
      else if c = 92 then
        (case cs of
           [] \<Rightarrow> Inl (JSONDecodeError (lit ''Unterminated string starting at''))
         | e # es \<Rightarrow>
             if e \<noteq> 117 then
               (case backslash e of
                  None \<Rightarrow> Inl (JSONDecodeError (lit ''Invalid escape''))
                | Some ch \<Rightarrow> cons_result ch (scanstring es))
             else
               (case decode_uXXXX es of
                  None \<Rightarrow> Inl (JSONDecodeError (lit ''Invalid uXXXX escape''))
                | Some (uni, r) \<Rightarrow>
                    if 55296 \<le> uni \<and> uni \<le> 56319 \<and> take 2 r = [92, 117] then
                      (case decode_uXXXX (drop 2 r) of
                         None \<Rightarrow> Inl (JSONDecodeError (lit ''Invalid uXXXX escape''))
                       | Some (uni2, r2) \<Rightarrow>
                           if 56320 \<le> uni2 \<and> uni2 \<le> 57343 then
                             cons_result (65536 + ((uni - 55296) * 1024 + (uni2 - 56320)))
                               (scanstring (drop 6 r))
                           else cons_result uni (scanstring r))
                    else cons_result uni (scanstring r)))
      else if c < 32 then Inl (JSONDecodeError (lit ''Invalid control character at''))
      else cons_result c (scanstring cs))"
  by pat_completeness auto

lemma decode_uXXXX_drop: "decode_uXXXX s = Some (u, r) \<Longrightarrow> r = drop 4 s \<and> 4 \<le> length s"
  by (auto simp: decode_uXXXX_def split: list.splits option.splits)

termination scanstring
proof (relation "measure length", goal_cases)
  case 1
  show ?case by simp
next
  case 2
  then show ?case by simp
next
  case 3
  then show ?case by (auto dest!: decode_uXXXX_drop)
next
  case 4
  then show ?case by (auto dest!: decode_uXXXX_drop)
next
  case 5
  then show ?case by (auto dest!: decode_uXXXX_drop)
next
  case 6
  then show ?case by simp
qed

text \<open>
  A number as the scanner matches it: an optional minus sign, an integer part without
  leading zeros, then optionally a fraction and an exponent. With neither it is an int,
  otherwise a float.
\<close>

definition digits_val :: "pystr \<Rightarrow> nat" where
  "digits_val ds = foldl (\<lambda>a c. 10 * a + (c - 48)) 0 ds"

definition int_part :: "pystr \<Rightarrow> pystr" where
  "int_part s =
     (case s of
        [] \<Rightarrow> []
      | c # cs \<Rightarrow>
          if \<not> is_digit c then []
          else if c = 48 then [c]
          else c # takeWhile is_digit cs)"

definition frac_part :: "pystr \<Rightarrow> pystr" where
  "frac_part s =
     (case s of
        d # e # r \<Rightarrow> if d = 46 \<and> is_digit e then d # e # takeWhile is_digit r else []
      | _ \<Rightarrow> [])"

definition exp_part :: "pystr \<Rightarrow> pystr" where
  "exp_part s =
     (case s of
        [] \<Rightarrow> []
      | e # r \<Rightarrow>
          if e = 101 \<or> e = 69 then
            (let sg = (if take 1 r = [43] \<or> take 1 r = [45] then take 1 r else []);
                 ds = takeWhile is_digit (drop (length sg) r)
             in if ds = [] then [] else e # sg @ ds)
          else [])"

definition match_number :: "pystr \<Rightarrow> (json \<times> pystr) option" where
  "match_number s =
     (let neg = (take 1 s = [45]);
          s1 = (if neg then drop 1 s else s);
          ip = int_part s1
      in if ip = [] then None
         else
           (let r1 = drop (length ip) s1;
                frac = frac_part r1;
                r2 = drop (length frac) r1;
                ex = exp_part r2;
                r3 = drop (length ex) r2
            in if frac = [] \<and> ex = [] then
                 Some (JInt (if neg then - int (digits_val ip) else int (digits_val ip)), r3)
               else Some (JFloat ((if neg then [45] else []) @ ip @ frac @ ex), r3)))"

text \<open>\<open>dict(pairs)\<close>: a repeated key keeps its first position and takes the last value.\<close>

definition dict :: "(pystr \<times> json) list \<Rightarrow> (pystr \<times> json) list" where
  "dict pairs = foldl (\<lambda>d kv. AList.update (fst kv) (snd kv) d) [] pairs"

definition starts_with :: "pystr \<Rightarrow> pystr \<Rightarrow> bool" where
  "starts_with p s \<longleftrightarrow> take (length p) s = p"

definition expecting_value :: exn where
  "expecting_value = JSONDecodeError (lit ''Expecting value'')"

text \<open>
  \<open>scan_once\<close> reads one value at the head of the input; \<open>parse_object\<close> and
  \<open>parse_array\<close> are the loops of the object and array parsers, entered at the point
  where a key, respectively an item, is read, with the pairs or items read so far.
  The first argument bounds the number of nested calls; \<open>json_loads\<close> starts with more
  than the input can use.
\<close>

fun scan_once :: "nat \<Rightarrow> pystr \<Rightarrow> exn + json \<times> pystr"
  and parse_object :: "nat \<Rightarrow> (pystr \<times> json) list \<Rightarrow> pystr \<Rightarrow> exn + json \<times> pystr"
  and parse_array :: "nat \<Rightarrow> json list \<Rightarrow> pystr \<Rightarrow> exn + json \<times> pystr" where
  "scan_once 0 s = Inl RecursionError"
| "scan_once (Suc n) [] = Inl expecting_value"
| "scan_once (Suc n) (c # cs) =
     (if c = 34 then
        (case scanstring cs of Inl e \<Rightarrow> Inl e | Inr (t, r) \<Rightarrow> Inr (JStr t, r))
      else if c = 123 then
        (if take 1 (skip_ws cs) = [125] then Inr (JObj [], drop 1 (skip_ws cs))
         else parse_object n [] (skip_ws cs))
      else if c = 91 then
        (if take 1 (skip_ws cs) = [93] then Inr (JArr [], drop 1 (skip_ws cs))
         else parse_array n [] (skip_ws cs))
      else if starts_with (lit ''null'') (c # cs) then Inr (JNull, drop 4 (c # cs))
      else if starts_with (lit ''true'') (c # cs) then Inr (JBool True, drop 4 (c # cs))
      else if starts_with (lit ''false'') (c # cs) then Inr (JBool False, drop 5 (c # cs))
      else if starts_with (lit ''NaN'') (c # cs) then Inr (JFloat (lit ''NaN''), drop 3 (c # cs))
      else if starts_with (lit ''Infinity'') (c # cs) then
        Inr (JFloat (lit ''Infinity''), drop 8 (c # cs))
      else if starts_with (lit ''-Infinity'') (c # cs) then
        Inr (JFloat (lit ''-Infinity''), drop 9 (c # cs))
      else (case match_number (c # cs) of None \<Rightarrow> Inl expecting_value | Some r \<Rightarrow> Inr r))"
| "parse_object 0 pairs s = Inl RecursionError"
| "parse_object (Suc n) pairs s =
     (if take 1 s \<noteq> [34] then
        Inl (JSONDecodeError (lit ''Expecting property name enclosed in double quotes''))
      else
        (case scanstring (drop 1 s) of
           Inl e \<Rightarrow> Inl e
         | Inr (key, r) \<Rightarrow>
             if take 1 (skip_ws r) \<noteq> [58] then
               Inl (JSONDecodeError (lit ''Expecting : delimiter''))
             else
               (case scan_once n (skip_ws (drop 1 (skip_ws r))) of
                  Inl e \<Rightarrow> Inl e
                | Inr (v, r2) \<Rightarrow>
                    if take 1 (skip_ws r2) = [125] then
                      Inr (JObj (dict (pairs @ [(key, v)])), drop 1 (skip_ws r2))
                    else if take 1 (skip_ws r2) \<noteq> [44] then
                      Inl (JSONDecodeError (lit ''Expecting , delimiter''))
                    else parse_object n (pairs @ [(key, v)]) (skip_ws (drop 1 (skip_ws r2))))))"
| "parse_array 0 items s = Inl RecursionError"
| "parse_array (Suc n) items s =
     (case scan_once n s of
        Inl e \<Rightarrow> Inl e
      | Inr (v, r) \<Rightarrow>
          if take 1 (skip_ws r) = [93] then Inr (JArr (items @ [v]), drop 1 (skip_ws r))
          else if take 1 (skip_ws r) \<noteq> [44] then
            Inl (JSONDecodeError (lit ''Expecting , delimiter''))
          else parse_array n (items @ [v]) (skip_ws (drop 1 (skip_ws r))))"

text \<open>
  \<open>json.loads\<close> on a str: a leading byte order mark is refused, white space around the
  value is skipped, and anything after it is an error.
\<close>

definition json_loads :: "pystr \<Rightarrow> exn + json" where
  "json_loads s =
     (if take 1 s = [65279] then Inl (JSONDecodeError (lit ''Unexpected UTF-8 BOM''))
      else
        (case scan_once (2 * length s + 2) (skip_ws s) of
           Inl e \<Rightarrow> Inl e
         | Inr (v, r) \<Rightarrow>
             if skip_ws r = [] then Inr v else Inl (JSONDecodeError (lit ''Extra data''))))"

section \<open>The surroundings\<close>

text \<open>
  What the code does not decide itself is a parameter: the base URL of the storage
  server, what building the generation pipeline gives, what the HTTP client returns or
  raises for a request, and whether a path can be opened for writing.
\<close>

record response =
  status_code :: nat
  resp_text :: pystr

record env =
  MEMORY_URL :: pystr
  make_pipeline :: "exn + Pipeline"
  requests_post :: "pystr \<Rightarrow> pystr \<Rightarrow> pystr \<Rightarrow> exn + response"
  requests_get :: "pystr \<Rightarrow> exn + response"
  writable :: "pystr \<Rightarrow> bool"

text \<open>The requests sent to the storage server, in order: the URL, and for an upload the
  form field \<open>name\<close> and the bytes of the file.\<close>

datatype request = POST pystr pystr pystr | GET pystr

text \<open>
  The state the handlers share: the registry \<open>bots\<close>, the files under the data
  directory, and the requests sent so far. The two locks are not modelled: every
  function below is one sequential run.
\<close>

record world =
  bots :: "pystr \<rightharpoonup> BotInstance"
  files :: "pystr \<rightharpoonup> pystr"
  sent :: "request list"

definition DATA_DIR :: pystr where
  "DATA_DIR = lit ''bots''"

text \<open>\<open>os.path.join\<close> of two components.\<close>

definition path_join :: "pystr \<Rightarrow> pystr \<Rightarrow> pystr" where
  "path_join a b =
     (if take 1 b = [47] then b
      else if a = [] \<or> last a = 47 then a @ b
      else a @ [47] @ b)"

text \<open>\<open>open(path, "w")\<close>: the file is created or emptied, or the call raises.\<close>

definition open_w :: "env \<Rightarrow> pystr \<Rightarrow> world \<Rightarrow> (exn + unit) \<times> world" where
  "open_w E path w =
     (if writable E path then (Inr (), w\<lparr>files := (files w)(path \<mapsto> [])\<rparr>)
      else (Inl (OSError (lit ''cannot open file for writing'')), w))"

text \<open>\<open>with open(path, "w") as f: f.write(content)\<close>, for a content that is at hand.\<close>

definition write_file :: "env \<Rightarrow> pystr \<Rightarrow> pystr \<Rightarrow> world \<Rightarrow> (exn + unit) \<times> world" where
  "write_file E path content w =
     (case open_w E path w of
        (Inl e, w0) \<Rightarrow> (Inl e, w0)
      | (Inr u, w0) \<Rightarrow> (Inr (), w0\<lparr>files := (files w0)(path \<mapsto> content)\<rparr>))"

text \<open>\<open>open(path, "rb").read()\<close>\<close>

definition read_file :: "pystr \<Rightarrow> world \<Rightarrow> exn + pystr" where
  "read_file path w =
     (case files w path of
        None \<Rightarrow> Inl (OSError (lit ''No such file or directory''))
      | Some content \<Rightarrow> Inr content)"

text \<open>\<open>try: ... except Exception: ...\<close> around a computation that has run to its result.\<close>

definition try_except ::
  "(exn + 'a) \<times> world \<Rightarrow> (exn \<Rightarrow> world \<Rightarrow> (exn + 'a) \<times> world) \<Rightarrow> (exn + 'a) \<times> world" where
  "try_except body handler =
     (case body of (Inl e, w) \<Rightarrow> handler e w | (Inr x, w) \<Rightarrow> (Inr x, w))"

section \<open>The agent's construction\<close>

definition load_model :: "env \<Rightarrow> Pipeline option" where
  "load_model E = (case make_pipeline E of Inl e \<Rightarrow> None | Inr p \<Rightarrow> Some p)"

definition BotInstance_init :: "env \<Rightarrow> BotConfig \<Rightarrow> BotInstance" where
  "BotInstance_init E c = \<lparr>cfg = c, pipeline = load_model E, history = JArr []\<rparr>"

section \<open>Remote store and local persistence\<close>

definition cfg_dict :: "BotConfig \<Rightarrow> json" where
  "cfg_dict c =
     JObj [(lit ''name'', JStr (name c)), (lit ''persona'', JStr (persona c)),
           (lit ''max_length'', JInt (max_length c))]"

definition save_bot_to_memory :: "env \<Rightarrow> BotConfig \<Rightarrow> world \<Rightarrow> (exn + bool \<times> pystr) \<times> world" where
  "save_bot_to_memory E c w =
     try_except
       (let filename = name c @ lit ''.bot.json'';
            tmp_path = path_join DATA_DIR filename
        in case write_file E tmp_path (json_dumps (Some 2) (cfg_dict c)) w of
             (Inl e, w1) \<Rightarrow> (Inl e, w1)
           | (Inr u, w1) \<Rightarrow>
               (case read_file tmp_path w1 of
                  Inl e \<Rightarrow> (Inl e, w1)
                | Inr content \<Rightarrow>
                    (let url = MEMORY_URL E @ lit ''/ml/save'';
                         w2 = w1\<lparr>sent := sent w1 @ [POST url filename content]\<rparr>
                     in case requests_post E url filename content of
                          Inl e \<Rightarrow> (Inl e, w2)
                        | Inr r \<Rightarrow> (Inr (status_code r < 400, resp_text r), w2))))
       (\<lambda>e w'. (Inr (False, str_exn e), w'))"

text \<open>
  \<open>load_bot_from_memory\<close> returns a pair: the parsed config (Python's \<open>None\<close> is
  \<open>JNull\<close>) and the error text, if any.
\<close>

definition load_bot_from_memory :: "env \<Rightarrow> pystr \<Rightarrow> world \<Rightarrow> (json \<times> pystr option) \<times> world" where
  "load_bot_from_memory E nm w =
     (let filename = nm @ lit ''.bot.json'';
          url = MEMORY_URL E @ lit ''/ml/load/'' @ filename;
          w1 = w\<lparr>sent := sent w @ [GET url]\<rparr>
      in case requests_get E url of
           Inl e \<Rightarrow> ((JNull, Some (str_exn e)), w1)
         | Inr r \<Rightarrow>
             if status_code r \<noteq> 200 then
               ((JNull, Some (lit ''memory returned '' @ str_nat (status_code r))), w1)
             else
               (case json_loads (resp_text r) of
                  Inl e \<Rightarrow> ((JNull, Some (str_exn e)), w1)
                | Inr v \<Rightarrow> ((v, None), w1)))"

definition history_path :: "pystr \<Rightarrow> pystr" where
  "history_path nm = path_join DATA_DIR (nm @ lit ''.history.json'')"

definition persist_local_history :: "env \<Rightarrow> pystr \<Rightarrow> json \<Rightarrow> world \<Rightarrow> (exn + unit) \<times> world" where
  "persist_local_history E nm h w = write_file E (history_path nm) (json_dumps (Some 2) h) w"

definition load_local_history :: "pystr \<Rightarrow> world \<Rightarrow> exn + json" where
  "load_local_history nm w =
     (case files w (history_path nm) of
        Some content \<Rightarrow> json_loads content
      | None \<Rightarrow> Inr (JArr []))"

section \<open>The request handlers\<close>

record CreateReq =
  req_name :: pystr
  req_persona :: pystr
  req_max_length :: int

record CreateResp =
  created :: pystr
  saved_to_memory :: bool
  memory_resp :: pystr

text \<open>
  The block of \<open>create_bot\<close> that runs under \<open>bots_lock\<close>: the membership check, the
  construction of the agent, the load of its history and the insertion, in this order.
\<close>

definition create_bot_locked :: "env \<Rightarrow> CreateReq \<Rightarrow> pystr \<Rightarrow> world \<Rightarrow> (exn + BotConfig) \<times> world" where
  "create_bot_locked E req nm w =
     (if nm \<in> dom (bots w) then (Inl (HTTPException 400 (lit ''bot already exists'')), w)
      else
        (let c = \<lparr>name = nm, persona = req_persona req, max_length = req_max_length req\<rparr>;
             inst = BotInstance_init E c
         in case load_local_history nm w of
              Inl e \<Rightarrow> (Inl e, w)
            | Inr h \<Rightarrow> (Inr c, w\<lparr>bots := (bots w)(nm \<mapsto> inst\<lparr>history := h\<rparr>)\<rparr>)))"

definition create_bot :: "env \<Rightarrow> CreateReq \<Rightarrow> world \<Rightarrow> (exn + CreateResp) \<times> world" where
  "create_bot E req w =
     (let nm = strip (req_name req)
      in if nm = [] then (Inl (HTTPException 400 (lit ''name required'')), w)
         else
           (case create_bot_locked E req nm w of
              (Inl e, w1) \<Rightarrow> (Inl e, w1)
            | (Inr c, w1) \<Rightarrow>
                (case save_bot_to_memory E c w1 of
                   (Inl e, w2) \<Rightarrow> (Inl e, w2)
                 | (Inr (ok, resp), w2) \<Rightarrow>
                     (Inr \<lparr>created = nm, saved_to_memory = ok, memory_resp = resp\<rparr>, w2))))"

text \<open>
  Two create requests served at the same time. The handler runs on a worker thread, and
  \<open>bots_lock\<close> lets one thread at a time into the block; what another thread can see of
  a request is therefore its state before the block, after the block, and after the
  upload that follows. \<open>create_step\<close> takes a request from one of these points to the
  next, and \<open>run2\<close> runs two requests in the order a schedule gives (\<open>True\<close>: the first
  request moves).
\<close>

datatype phase = Start | Locked_done BotConfig | Finished "exn + CreateResp"

definition create_step :: "env \<Rightarrow> CreateReq \<Rightarrow> phase \<Rightarrow> world \<Rightarrow> phase \<times> world" where
  "create_step E req ph w =
     (case ph of
        Start \<Rightarrow>
          (let nm = strip (req_name req)
           in if nm = [] then (Finished (Inl (HTTPException 400 (lit ''name required''))), w)
              else
                (case create_bot_locked E req nm w of
                   (Inl e, w1) \<Rightarrow> (Finished (Inl e), w1)
                 | (Inr c, w1) \<Rightarrow> (Locked_done c, w1)))
      | Locked_done c \<Rightarrow>
          (case save_bot_to_memory E c w of
             (Inl e, w2) \<Rightarrow> (Finished (Inl e), w2)
           | (Inr (ok, resp), w2) \<Rightarrow>
               (Finished (Inr \<lparr>created = name c, saved_to_memory = ok, memory_resp = resp\<rparr>), w2))
      | Finished r \<Rightarrow> (Finished r, w))"




text \<open>Truth value of a Python object, as \<open>if cfg_data:\<close> tests it.\<close>

definition float_nonzero :: "pystr \<Rightarrow> bool" where
  "float_nonzero l \<longleftrightarrow>
     list_ex (\<lambda>c. 49 \<le> c \<and> c \<le> 57) (takeWhile (\<lambda>c. c \<noteq> 101 \<and> c \<noteq> 69) l) \<or>
     l = lit ''NaN'' \<or> l = lit ''Infinity'' \<or> l = lit ''-Infinity''"

fun py_truthy :: "json \<Rightarrow> bool" where
  "py_truthy JNull = False"
| "py_truthy (JBool b) = b"
| "py_truthy (JInt i) = (i \<noteq> 0)"
| "py_truthy (JFloat l) = float_nonzero l"
| "py_truthy (JStr s) = (s \<noteq> [])"
| "py_truthy (JArr xs) = (xs \<noteq> [])"
| "py_truthy (JObj kvs) = (kvs \<noteq> [])"

text \<open>
  \<open>BotConfig(**cfg_data)\<close>: only a dict can be unpacked; \<open>name\<close> is required and the
  other two fields have defaults. A field of the wrong type is refused (the coercions
  of the validation library are not modelled); other keys are ignored.
\<close>

definition BotConfig_of :: "json \<Rightarrow> exn + BotConfig" where
  "BotConfig_of v =
     (case v of
        JObj kvs \<Rightarrow>
          (case (map_of kvs (lit ''name''), map_of kvs (lit ''persona''),
                 map_of kvs (lit ''max_length'')) of
             (Some (JStr n), p, m) \<Rightarrow>
               (case (p, m) of
                  (None, None) \<Rightarrow>
                    Inr \<lparr>name = n, persona = lit ''You are a helpful assistant.'', max_length = 128\<rparr>
                | (Some (JStr q), None) \<Rightarrow> Inr \<lparr>name = n, persona = q, max_length = 128\<rparr>
                | (None, Some (JInt k)) \<Rightarrow>
                    Inr \<lparr>name = n, persona = lit ''You are a helpful assistant.'', max_length = k\<rparr>
                | (Some (JStr q), Some (JInt k)) \<Rightarrow> Inr \<lparr>name = n, persona = q, max_length = k\<rparr>
                | _ \<Rightarrow> Inl (ValidationError (lit ''validation error for BotConfig'')))
           | _ \<Rightarrow> Inl (ValidationError (lit ''validation error for BotConfig'')))
      | _ \<Rightarrow> Inl (TypeError (lit ''argument after ** must be a mapping'')))"

datatype DeployResp = already_deployed pystr | deployed pystr

definition deploy_bot :: "env \<Rightarrow> pystr \<Rightarrow> world \<Rightarrow> (exn + DeployResp) \<times> world" where
  "deploy_bot E nm w =
     (if nm \<in> dom (bots w) then (Inr (already_deployed nm), w)
      else
        (case load_bot_from_memory E nm w of
           ((cfg_data, err), w1) \<Rightarrow>
             if py_truthy cfg_data then
               (case BotConfig_of cfg_data of
                  Inl e \<Rightarrow> (Inl e, w1)
                | Inr c \<Rightarrow>
                    (let inst = BotInstance_init E c
                     in case load_local_history nm w1 of
                          Inl e \<Rightarrow> (Inl e, w1)
                        | Inr h \<Rightarrow>
                            (Inr (deployed nm), w1\<lparr>bots := (bots w1)(nm \<mapsto> inst\<lparr>history := h\<rparr>)\<rparr>)))
             else
               (Inl (HTTPException 404
                      (lit ''bot config not found in memory: '' @
                       (case err of None \<Rightarrow> lit ''None'' | Some m \<Rightarrow> m))), w1)))"

text \<open>
  The upload of the history after a chat turn, the body of the \<open>try\<close> in \<open>bot_chat\<close>:
  the history file is opened again, the history is read from the agent and written
  without indentation, and the file is posted.
\<close>

definition push_history :: "env \<Rightarrow> pystr \<Rightarrow> BotInstance \<Rightarrow> world \<Rightarrow> (exn + unit) \<times> world" where
  "push_history E nm inst w =
     (let hist_file = history_path nm
      in case open_w E hist_file w of
           (Inl e, w0) \<Rightarrow> (Inl e, w0)
         | (Inr u, w0) \<Rightarrow>
             (case get_history inst of
                Inl e \<Rightarrow> (Inl e, w0)
              | Inr h \<Rightarrow>
                  (let w1 = w0\<lparr>files := (files w0)(hist_file \<mapsto> json_dumps None (JArr h))\<rparr>
                   in case read_file hist_file w1 of
                        Inl e \<Rightarrow> (Inl e, w1)
                      | Inr content \<Rightarrow>
                          (let url = MEMORY_URL E @ lit ''/ml/save'';
                               w2 = w1\<lparr>sent := sent w1 @
                                      [POST url (nm @ lit ''.history.json'') content]\<rparr>
                           in case requests_post E url (nm @ lit ''.history.json'') content of
                                Inl e \<Rightarrow> (Inl e, w2)
                              | Inr r \<Rightarrow> (Inr (), w2)))))"

text \<open>
  \<open>bot_chat\<close>. The request body is a dict; its \<open>message\<close>, when present, is taken to be
  a str, the type \<open>chat\<close> declares for its prompt. The agent is an object shared with
  the registry, so what \<open>chat\<close> does to it is seen there, also when \<open>chat\<close> raises.
\<close>

definition bot_chat :: "env \<Rightarrow> pystr \<Rightarrow> (pystr \<rightharpoonup> pystr) \<Rightarrow> world \<Rightarrow> (exn + pystr) \<times> world" where
  "bot_chat E nm body w =
     (case body (lit ''message'') of
        None \<Rightarrow> (Inl (HTTPException 400 (lit ''message required'')), w)
      | Some msg \<Rightarrow>
          if msg = [] then (Inl (HTTPException 400 (lit ''message required'')), w)
          else
            (case bots w nm of
               None \<Rightarrow> (Inl (HTTPException 404 (lit ''bot not deployed'')), w)
             | Some inst \<Rightarrow>
                 (case chat inst msg of
                    (Inl e, inst1) \<Rightarrow> (Inl e, w\<lparr>bots := (bots w)(nm \<mapsto> inst1)\<rparr>)
                  | (Inr reply, inst1) \<Rightarrow>
                      (let w1 = w\<lparr>bots := (bots w)(nm \<mapsto> inst1)\<rparr>
                       in case get_history inst1 of
                            Inl e \<Rightarrow> (Inl e, w1)
                          | Inr h \<Rightarrow>
                              (case persist_local_history E nm (JArr h) w1 of
                                 (Inl e, w2) \<Rightarrow> (Inl e, w2)
                               | (Inr u, w2) \<Rightarrow>
                                   (case try_except (push_history E nm inst1 w2)
                                           (\<lambda>e w'. (Inr (), w')) of
                                      (Inl e, w3) \<Rightarrow> (Inl e, w3)
                                    | (Inr u', w3) \<Rightarrow> (Inr reply, w3)))))))"

definition bot_history :: "pystr \<Rightarrow> world \<Rightarrow> exn + json list" where
  "bot_history nm w =
     (case bots w nm of
        None \<Rightarrow> Inl (HTTPException 404 (lit ''bot not deployed''))
      | Some inst \<Rightarrow> get_history inst)"

text \<open>\<open>N\<close> chat calls one after the other on one agent, each with its prompt; the run
  stops at the first call that raises.\<close>

fun chats :: "BotInstance \<Rightarrow> pystr list \<Rightarrow> (exn + pystr list) \<times> BotInstance" where
  "chats self [] = (Inr [], self)"
| "chats self (p # ps) =
     (case chat self p of
        (Inl e, self1) \<Rightarrow> (Inl e, self1)
      | (Inr reply, self1) \<Rightarrow>
          (case chats self1 ps of
             (Inl e, self2) \<Rightarrow> (Inl e, self2)
           | (Inr replies, self2) \<Rightarrow> (Inr (reply # replies), self2)))"

section \<open>The specification's data model\<close>

text \<open>
  A history entry as the specification describes it: a role, user or bot, and a text.
  \<open>entry_json\<close> is the dict the code builds for it. A text is a string of Unicode
  scalar values: code points below 1114112 that are not surrogates.
\<close>

datatype Role = User | Bot

record HistoryEntry =
  entry_role :: Role
  entry_text :: pystr

fun role_str :: "Role \<Rightarrow> pystr" where
  "role_str User = lit ''user''"
| "role_str Bot = lit ''bot''"

definition entry_obj :: "pystr \<Rightarrow> pystr \<Rightarrow> json" where
  "entry_obj r t = JObj [(lit ''role'', JStr r), (lit ''text'', JStr t)]"

definition entry_json :: "HistoryEntry \<Rightarrow> json" where
  "entry_json e = entry_obj (role_str (entry_role e)) (entry_text e)"

definition scalar :: "nat \<Rightarrow> bool" where
  "scalar c \<longleftrightarrow> c < 55296 \<or> (57344 \<le> c \<and> c < 1114112)"

definition valid_entry :: "HistoryEntry \<Rightarrow> bool" where
  "valid_entry e \<longleftrightarrow> list_all scalar (entry_text e)"

text \<open>The entries that \<open>N\<close> chat turns add, from the prompts and the replies.\<close>

fun turns :: "pystr list \<Rightarrow> pystr list \<Rightarrow> json list" where
  "turns (p # ps) (r # rs) = user_entry p # bot_entry r # turns ps rs"
| "turns ps rs = []"

text \<open>The path \<open>save_bot_to_memory\<close> writes the configuration to, and the error class
  of a history file that cannot be parsed.\<close>

definition cfg_path :: "BotConfig \<Rightarrow> pystr" where
  "cfg_path c = path_join DATA_DIR (name c @ lit ''.bot.json'')"


section \<open>Example data\<close>

text \<open>
  The bot of the specification's scenario, an agent for it with no pipeline and one
  whose pipeline raises, and surroundings in which the model cannot be loaded and the
  storage server cannot be reached.
\<close>

definition helper_cfg :: BotConfig where
  "helper_cfg = \<lparr>name = lit ''helper'', persona = lit ''You are terse.'', max_length = 64\<rparr>"

definition helper_offline :: "json \<Rightarrow> BotInstance" where
  "helper_offline h = \<lparr>cfg = helper_cfg, pipeline = None, history = h\<rparr>"

definition helper_raising :: "json \<Rightarrow> BotInstance" where
  "helper_raising h =
     \<lparr>cfg = helper_cfg,
      pipeline = Some (\<lambda>p n. Inl (External (lit ''Input length of input_ids exceeds max_length''))),
      history = h\<rparr>"

definition helper_req :: CreateReq where
  "helper_req =
     \<lparr>req_name = lit ''helper'', req_persona = lit ''You are terse.'', req_max_length = 64\<rparr>"

text \<open>Requests whose name is padded with spaces, and made of spaces only.\<close>

definition padded_req :: CreateReq where
  "padded_req = helper_req\<lparr>req_name := lit ''  helper ''\<rparr>"

definition blank_req :: CreateReq where
  "blank_req = helper_req\<lparr>req_name := lit ''   ''\<rparr>"

text \<open>The request body of the scenario's chat.\<close>

definition hi_body :: "pystr \<rightharpoonup> pystr" where
  "hi_body = [lit ''message'' \<mapsto> lit ''hi'']"

text \<open>Surroundings in which the model cannot be loaded and the storage server cannot be
  reached, surroundings whose server answers every upload with status 500, and
  surroundings whose server delivers the configuration of the bot.\<close>

definition offline_env :: env where
  "offline_env =
     \<lparr>MEMORY_URL = lit ''http://localhost:8000'',
      make_pipeline = Inl (External (lit ''model load error'')),
      requests_post = (\<lambda>url nm content. Inl (External (lit ''connection refused''))),
      requests_get = (\<lambda>url. Inl (External (lit ''connection refused''))),
      writable = (\<lambda>path. True)\<rparr>"


definition serving_env :: env where
  "serving_env =
     offline_env\<lparr>requests_get :=
       (\<lambda>url. Inr \<lparr>status_code = 200, resp_text = json_dumps (Some 2) (cfg_dict helper_cfg)\<rparr>)\<rparr>"


definition old_history :: "HistoryEntry list" where
  "old_history =
     [\<lparr>entry_role = User, entry_text = lit ''old''\<rparr>,
      \<lparr>entry_role = Bot, entry_text = fallback_reply\<rparr>]"

text \<open>Worlds: nothing registered and no files; a history file for the bot that was cut
  off in the middle of a write; the history file a previous run left, as \<open>bot_chat\<close>
  writes it last.\<close>

definition empty_world :: world where
  "empty_world = \<lparr>bots = Map.empty, files = Map.empty, sent = []\<rparr>"

definition corrupt_world :: world where
  "corrupt_world =
     \<lparr>bots = Map.empty,
      files = [history_path (lit ''helper'') \<mapsto> lit ''[{\"role\": \"user\", \"te''],
      sent = []\<rparr>"

definition seeded_world :: world where
  "seeded_world =
     \<lparr>bots = Map.empty,
      files = [history_path (lit ''helper'') \<mapsto> json_dumps None (JArr (map entry_json old_history))],
      sent = []\<rparr>"

section \<open>The parser always answers\<close>












section \<open>The parser on sample inputs\<close>

text \<open>Unfolding the parser at a numeral bound, and \<open>replicate\<close> at a numeral.\<close>

lemmas scan_num =
  scan_once.simps(2,3)[of "pred_numeral k", folded numeral_eq_Suc]
  parse_object.simps(2)[of "pred_numeral k", folded numeral_eq_Suc]
  parse_array.simps(2)[of "pred_numeral k", folded numeral_eq_Suc] for k

lemma replicate_num: "replicate (numeral k) x = x # replicate (pred_numeral k) x"
  by (simp add: numeral_eq_Suc)

text \<open>
  What \<open>json_loads\<close> gives on some inputs, written as code points: the numbers
  \<open>-0\<close> and \<open>1.5E+3\<close>, a number with a bare point, a leading zero, a doubled and a
  trailing comma, nested and repeated keys, white space, a cut literal, trailing
  text, the empty input, the named constants, a surrogate pair and a lone surrogate,
  a raw tab, an unknown escape, and the short escapes.
\<close>

lemmas json_eval =
  lit_def json_loads_def skip_ws_def is_ws_def is_digit_def match_number_def int_part_def
  frac_part_def exp_part_def digits_val_def dict_def starts_with_def expecting_value_def
  scan_num backslash_def cons_result_def decode_uXXXX_def unhex_def Let_def

lemma json_loads_samples:
  "json_loads [45, 48] = Inr (JInt 0)"
  "json_loads [49, 46, 53, 69, 43, 51] = Inr (JFloat (lit ''1.5E+3''))"
  "json_loads [49, 46] = Inl (JSONDecodeError (lit ''Extra data''))"
  "json_loads [91, 48, 49, 93] = Inl (JSONDecodeError (lit ''Expecting , delimiter''))"
  "json_loads [91, 49, 44, 44, 50, 93] = Inl expecting_value"
  "json_loads [123, 34, 97, 34, 32, 58, 32, 49, 32, 44, 32, 34, 98, 34, 58, 123, 125, 125] =
     Inr (JObj [(lit ''a'', JInt 1), (lit ''b'', JObj [])])"
  "json_loads [123, 34, 97, 34, 58, 32, 49, 44, 32, 34, 97, 34, 58, 32, 50, 125] =
     Inr (JObj [(lit ''a'', JInt 2)])"
  "json_loads [91, 91, 32, 93, 93] = Inr (JArr [JArr []])"
  "json_loads [32, 32, 110, 117, 108, 108, 32, 32] = Inr JNull"
  "json_loads [116, 114, 117] = Inl expecting_value"
  "json_loads [123, 34, 97, 34, 58, 49, 44, 125] =
     Inl (JSONDecodeError (lit ''Expecting property name enclosed in double quotes''))"
  "json_loads [91, 93, 32, 120] = Inl (JSONDecodeError (lit ''Extra data''))"
  "json_loads [] = Inl expecting_value"
  "json_loads [91, 116, 114, 117, 101, 44, 32, 78, 97, 78, 44, 32, 45, 73, 110, 102, 105, 110, 105, 116, 121, 93] =
     Inr (JArr [JBool True, JFloat (lit ''NaN''), JFloat (lit ''-Infinity'')])"
  "json_loads [34, 92, 117, 100, 56, 51, 100, 92, 117, 100, 101, 48, 48, 34] =
     Inr (JStr [128512])"
  "json_loads [34, 92, 117, 100, 56, 51, 100, 92, 117, 48, 48, 52, 49, 34] =
     Inr (JStr [55357, 65])"
  "json_loads [34, 97, 9, 98, 34] = Inl (JSONDecodeError (lit ''Invalid control character at''))"
  "json_loads [34, 92, 120, 34] = Inl (JSONDecodeError (lit ''Invalid escape''))"
  "json_loads [34, 92, 47, 92, 98, 92, 102, 92, 114, 92, 116, 92, 34, 92, 92, 34] =
     Inr (JStr [47, 8, 12, 13, 9, 34, 92])"
  by (simp_all add: json_eval)

lemma json_loads_truncated:
  "json_loads (lit ''[{\"role\": \"user\", \"te'') =
     Inl (JSONDecodeError (lit ''Unterminated string starting at''))"
  by (simp add: json_loads_def lit_def skip_ws_def is_ws_def scan_num backslash_def cons_result_def)

section \<open>Reading back what was written\<close>

subsection \<open>Strings\<close>

lemma unhex_hexdigit: "d < 16 \<Longrightarrow> unhex (hexdigit d) = Some d"
  by (auto simp: unhex_def hexdigit_def)

lemma hex4_value:
  assumes "n < 65536"
  shows "((n div 4096 mod 16 * 16 + n div 256 mod 16) * 16 + n div 16 mod 16) * 16 + n mod 16 = (n::nat)"
proof -
  have a: "n div 4096 mod 16 = n div 4096" using assms by simp
  have b: "n div 256 = n div 4096 * 16 + n div 256 mod 16"
    using div_mult_mod_eq[of "n div 256" 16] by (simp add: div_mult2_eq[symmetric])
  have c: "n div 16 = n div 256 * 16 + n div 16 mod 16"
    using div_mult_mod_eq[of "n div 16" 16] by (simp add: div_mult2_eq[symmetric])
  have d: "n = n div 16 * 16 + n mod 16" by simp
  show ?thesis unfolding a by (simp only: b[symmetric] c[symmetric] d[symmetric])
qed

lemma decode_hex4: "n < 65536 \<Longrightarrow> decode_uXXXX (hex4 n @ r) = Some (n, r)"
  using hex4_value[of n] by (simp add: decode_uXXXX_def hex4_def unhex_hexdigit)

lemma hex4_length: "length (hex4 n) = 4"
  by (simp add: hex4_def)

lemma scanstring_escape_char:
  assumes "scalar c"
  shows "scanstring (escape_char c @ r) = cons_result c (scanstring r)"
proof -
  consider (short) "c = 34 \<or> c = 92 \<or> c = 10 \<or> c = 13 \<or> c = 9 \<or> c = 8 \<or> c = 12"
    | (plain) "32 \<le> c" "c \<le> 126" "c \<noteq> 34" "c \<noteq> 92"
    | (bmp) "c < 32 \<or> 126 < c" "c \<noteq> 10" "c \<noteq> 13" "c \<noteq> 9" "c \<noteq> 8" "c \<noteq> 12" "c < 65536"
    | (astral) "65536 \<le> c"
    by linarith
  then show ?thesis
  proof cases
    case short
    then show ?thesis by (auto simp: escape_char_def backslash_def)
  next
    case plain
    then show ?thesis by (simp add: escape_char_def)
  next
    case bmp
    from bmp assms have ns: "\<not> (55296 \<le> c \<and> c \<le> 56319)" by (auto simp: scalar_def)
    from bmp have e: "escape_char c = [92, 117] @ hex4 c" by (auto simp: escape_char_def)
    show ?thesis unfolding e using ns bmp(7) by (auto simp add: decode_hex4)
  next
    case astral
    define v where "v = c - 65536"
    define hi where "hi = 55296 + v div 1024 mod 1024"
    define lo where "lo = 56320 + v mod 1024"
    from astral assms have v: "v < 1048576" and c: "c = 65536 + v" by (auto simp: scalar_def v_def)
    have hi: "55296 \<le> hi" "hi \<le> 56319" "hi < 65536" by (simp_all add: hi_def)
    have lo: "56320 \<le> lo" "lo \<le> 57343" "lo < 65536" by (simp_all add: lo_def)
    have val: "65536 + ((hi - 55296) * 1024 + (lo - 56320)) = c"
      using v by (simp add: hi_def lo_def c)
    from astral have e: "escape_char c = [92, 117] @ hex4 hi @ [92, 117] @ hex4 lo"
      by (simp add: escape_char_def Let_def hi_def lo_def v_def)
    show ?thesis unfolding e using hi lo val
      by (simp add: decode_hex4 hex4_length)
  qed
qed

lemma scanstring_encoded:
  "list_all scalar s \<Longrightarrow> scanstring (concat (map escape_char s) @ 34 # r) = Inr (s, r)"
  by (induction s) (simp_all add: scanstring_escape_char cons_result_def)

lemma scan_once_string:
  "list_all scalar s \<Longrightarrow> scan_once (Suc n) (encode_basestring_ascii s @ r) = Inr (JStr s, r)"
  by (simp add: encode_basestring_ascii_def scanstring_encoded)

subsection \<open>White space and separators\<close>

lemma skip_ws_ws_append: "list_all is_ws u \<Longrightarrow> skip_ws (u @ s) = skip_ws s"
  by (simp add: skip_ws_def dropWhile_append2 list_all_iff)

lemma newline_indent_is_ws: "list_all is_ws (newline_indent indent level)"
  by (cases indent) (simp_all add: newline_indent_def is_ws_def list_all_iff)

lemma skip_ws_newline_indent: "skip_ws (newline_indent indent level @ s) = skip_ws s"
  by (rule skip_ws_ws_append) (rule newline_indent_is_ws)

lemma skip_ws_Nil: "skip_ws [] = []"
  by (simp add: skip_ws_def)

lemma skip_ws_Cons: "skip_ws (c # s) = (if is_ws c then skip_ws s else c # s)"
  by (simp add: skip_ws_def)

lemma encoded_head: "encode_basestring_ascii s @ r = 34 # concat (map escape_char s) @ 34 # r"
  by (simp add: encode_basestring_ascii_def)

lemma skip_ws_encoded: "skip_ws (encode_basestring_ascii s @ r) = encode_basestring_ascii s @ r"
  by (simp add: encoded_head skip_ws_Cons is_ws_def)

lemma take1_encoded: "take (Suc 0) (encode_basestring_ascii s @ r) = [34]"
  by (simp add: encoded_head)

lemma scanstring_drop1_encoded:
  "list_all scalar s \<Longrightarrow> scanstring (drop (Suc 0) (encode_basestring_ascii s @ r)) = Inr (s, r)"
  by (simp add: encoded_head scanstring_encoded)

lemma take1_item_separator: "take (Suc 0) (item_separator indent @ r) = [44]"
  by (cases indent) (simp_all add: item_separator_def)

lemma skip_ws_item_separator:
  "skip_ws (drop (Suc 0) (item_separator indent @ r)) = skip_ws r"
  by (cases indent) (simp_all add: item_separator_def skip_ws_def is_ws_def)

lemma skip_ws_nows_item_separator: "skip_ws (item_separator indent @ r) = item_separator indent @ r"
  by (cases indent) (simp_all add: item_separator_def skip_ws_def is_ws_def)

subsection \<open>Entries and histories\<close>

lemma scalar_lits: "list_all scalar (lit ''role'')" "list_all scalar (lit ''text'')"
  by (simp_all add: lit_def scalar_def)

lemma dict_role_text:
  "dict [(lit ''role'', a), (lit ''text'', b)] = [(lit ''role'', a), (lit ''text'', b)]"
  by (simp add: dict_def lit_def)

lemma iterencode_entry:
  "iterencode indent level (entry_obj r t) =
     123 # newline_indent indent (Suc level) @
     encode_basestring_ascii (lit ''role'') @ 58 # 32 # encode_basestring_ascii r @
     item_separator indent @ newline_indent indent (Suc level) @
     encode_basestring_ascii (lit ''text'') @ 58 # 32 # encode_basestring_ascii t @
     newline_indent indent level @ [125]"
  by (simp add: entry_obj_def)

lemma scan_once_entry:
  assumes "list_all scalar r" and "list_all scalar t"
  shows "scan_once (Suc (Suc (Suc (Suc n)))) (iterencode indent level (entry_obj r t) @ rest) =
           Inr (entry_obj r t, rest)"
  unfolding iterencode_entry using assms
  apply (simp add: skip_ws_newline_indent skip_ws_encoded take1_encoded scanstring_drop1_encoded
      scalar_lits skip_ws_Cons is_ws_def scan_once_string take1_item_separator
      skip_ws_item_separator skip_ws_nows_item_separator dict_role_text entry_obj_def
      del: take_append drop_append)
  done

lemma entry_json_obj: "entry_json e = entry_obj (role_str (entry_role e)) (entry_text e)"
  by (simp add: entry_json_def)

lemma scalar_role_str: "list_all scalar (role_str r)"
  by (cases r) (simp_all add: lit_def scalar_def)

lemma scan_once_entry_json:
  "valid_entry e \<Longrightarrow>
     scan_once (Suc (Suc (Suc (Suc n)))) (iterencode indent level (entry_json e) @ rest) =
       Inr (entry_json e, rest)"
  unfolding entry_json_obj by (rule scan_once_entry) (simp_all add: scalar_role_str valid_entry_def)

lemma iterencode_entry_head:
  "iterencode indent level (entry_json e) @ r = 123 # tl (iterencode indent level (entry_json e)) @ r"
  by (simp add: entry_json_obj iterencode_entry)

lemma parse_array_entries:
  "list_all valid_entry (e # es) \<Longrightarrow>
     parse_array (Suc (Suc (Suc (Suc (Suc (length es + n)))))) items
       (join (item_separator indent @ newline_indent indent lvl)
          (map (iterencode indent lvl) (map entry_json (e # es))) @
        newline_indent indent l0 @ 93 # rest) =
     Inr (JArr (items @ map entry_json (e # es)), rest)"
proof (induction es arbitrary: e items)
  case Nil
  then show ?case
    by (simp add: scan_once_entry_json skip_ws_newline_indent skip_ws_Cons is_ws_def
        del: take_append drop_append)
next
  case (Cons e' es)
  from Cons.prems have v: "valid_entry e" and rest: "list_all valid_entry (e' # es)" by simp_all
  define tail where "tail = join (item_separator indent @ newline_indent indent lvl)
          (map (iterencode indent lvl) (map entry_json (e' # es))) @
        newline_indent indent l0 @ 93 # rest"
  have enc: "join (item_separator indent @ newline_indent indent lvl)
          (map (iterencode indent lvl) (map entry_json (e # e' # es))) @
        newline_indent indent l0 @ 93 # rest =
      iterencode indent lvl (entry_json e) @ item_separator indent @
        newline_indent indent lvl @ tail"
    by (simp add: tail_def del: iterencode.simps)
  have ih: "parse_array (Suc (Suc (Suc (Suc (Suc (length es + n)))))) (items @ [entry_json e]) tail =
     Inr (JArr ((items @ [entry_json e]) @ map entry_json (e' # es)), rest)"
    unfolding tail_def by (rule Cons.IH[OF rest])
  have sk: "skip_ws tail = tail"
    unfolding tail_def by (cases es) (simp_all add: iterencode_entry_head skip_ws_Cons is_ws_def)
  show ?case
    unfolding enc
    apply (subst parse_array.simps(2))
    apply (simp add: scan_once_entry_json[OF v] take1_item_separator skip_ws_item_separator
        skip_ws_newline_indent sk ih skip_ws_nows_item_separator
        del: parse_array.simps take_append drop_append iterencode.simps)
    done
qed

lemma length_join: "list_all (\<lambda>x. x \<noteq> []) xs \<Longrightarrow> length xs \<le> length (join sep xs)"
proof (induction sep xs rule: join.induct)
  case (2 sep x)
  then show ?case by (cases x) simp_all
next
  case (3 sep x y ys)
  then show ?case by (cases x) simp_all
qed simp

lemma iterencode_entry_nonempty: "iterencode indent lvl (entry_json e) \<noteq> []"
  by (simp add: entry_json_obj iterencode_entry)

text \<open>
  A history of valid entries is read back as it was written, with and without
  indentation.
\<close>

lemma json_loads_dumps_history:
  assumes "list_all valid_entry es"
  shows "json_loads (json_dumps indent (JArr (map entry_json es))) = Inr (JArr (map entry_json es))"
proof (cases es)
  case Nil
  have "json_loads [91, 93] = Inr (JArr [])"
    by (simp add: json_loads_def skip_ws_def is_ws_def
        scan_num)
  then show ?thesis
    using Nil by (simp add: json_dumps_def lit_def)
next
  case (Cons e es')
  define body where "body = join (item_separator indent @ newline_indent indent (Suc 0))
          (map (iterencode indent (Suc 0)) (map entry_json (e # es'))) @
        newline_indent indent 0 @ 93 # []"
  have dumps: "json_dumps indent (JArr (map entry_json es)) = 91 # newline_indent indent (Suc 0) @ body"
    using Cons by (simp add: json_dumps_def body_def del: iterencode.simps(7))
  have "length (e # es') \<le> length (join (item_separator indent @ newline_indent indent (Suc 0))
          (map (iterencode indent (Suc 0)) (map entry_json (e # es'))))"
    using length_join[of "map (iterencode indent (Suc 0)) (map entry_json (e # es'))"]
    by (simp add: list_all_iff iterencode_entry_nonempty del: iterencode.simps)
  then have lb: "length es' + 2 \<le> length body" by (simp add: body_def)
  define n where "n = 2 * length body + 2 * length (newline_indent indent (Suc 0)) - length es' - 2"
  from lb have fuel: "2 * length (91 # newline_indent indent (Suc 0) @ body) + 2 =
      Suc (Suc (Suc (Suc (Suc (Suc (length es' + n))))))"
    by (simp add: n_def)
  have sk: "skip_ws body = body" "take (Suc 0) body \<noteq> [93]"
    unfolding body_def by (cases es'; simp add: iterencode_entry_head skip_ws_Cons is_ws_def)+
  have pa: "parse_array (Suc (Suc (Suc (Suc (Suc (length es' + n)))))) [] body =
      Inr (JArr ([] @ map entry_json (e # es')), [])"
    unfolding body_def using assms Cons by (intro parse_array_entries) simp
  show ?thesis
    unfolding dumps json_loads_def fuel
    using Cons sk
    by (simp add: skip_ws_Cons is_ws_def skip_ws_newline_indent pa skip_ws_Nil
        del: parse_array.simps take_append drop_append iterencode.simps)
qed

lemma user_entry_json: "user_entry p = entry_json \<lparr>entry_role = User, entry_text = p\<rparr>"
  by (simp add: user_entry_def entry_json_def entry_obj_def)

lemma bot_entry_json: "bot_entry r = entry_json \<lparr>entry_role = Bot, entry_text = r\<rparr>"
  by (simp add: bot_entry_def entry_json_def entry_obj_def)

section \<open>Facts about the handlers\<close>

subsection \<open>Literals and names\<close>

lemma lit_eq_iff [simp]: "lit s = lit t \<longleftrightarrow> s = t"
  by (simp add: lit_def inj_map_eq_map[OF inj_of_char])

lemma lit_eq_Nil_iff [simp]: "lit s = [] \<longleftrightarrow> s = []"
  by (simp add: lit_def)

lemma strip_helper: "strip (lit ''helper'') = lit ''helper''"
  by (simp add: strip_def lit_def isspace_def)

lemma strip_padded: "strip (lit ''  helper '') = lit ''helper''" "strip (lit ''   '') = []"
  by (simp_all add: strip_def lit_def isspace_def)

lemma helper_req_cfg:
  "\<lparr>name = lit ''helper'', persona = req_persona helper_req,
     max_length = req_max_length helper_req\<rparr> = helper_cfg"
  by (simp add: helper_req_def helper_cfg_def)

subsection \<open>The upload of the configuration\<close>

lemma save_bot_to_memory_returns:
  "\<exists>ok detail w'. save_bot_to_memory E c w = (Inr (ok, detail), w')"
  by (auto simp: save_bot_to_memory_def try_except_def Let_def write_file_def open_w_def read_file_def
      split: sum.splits prod.splits)

lemma save_bot_to_memory_bots: "bots (snd (save_bot_to_memory E c w)) = bots w"
  by (auto simp: save_bot_to_memory_def try_except_def Let_def write_file_def open_w_def read_file_def
      split: sum.splits prod.splits)


lemma save_bot_to_memory_unwritable:
  assumes "\<not> writable E (cfg_path c)"
  shows "save_bot_to_memory E c w = (Inr (False, lit ''cannot open file for writing''), w)"
  using assms
  by (simp add: save_bot_to_memory_def try_except_def Let_def write_file_def open_w_def cfg_path_def)

subsection \<open>Create and deploy\<close>

lemma load_bot_from_memory_world:
  "snd (load_bot_from_memory E nm w) =
     w\<lparr>sent := sent w @ [GET (MEMORY_URL E @ lit ''/ml/load/'' @ nm @ lit ''.bot.json'')]\<rparr>"
  by (auto simp: load_bot_from_memory_def Let_def split: sum.splits)

lemma load_local_history_sent: "load_local_history nm (w\<lparr>sent := x\<rparr>) = load_local_history nm w"
  by (simp add: load_local_history_def)

lemma create_bot_fresh:
  assumes "strip (req_name req) = nm" and "nm \<noteq> []" and "nm \<notin> dom (bots w)"
    and "load_local_history nm w = Inr h"
  shows "\<exists>ok detail w2.
           create_bot E req w =
             (Inr \<lparr>created = nm, saved_to_memory = ok, memory_resp = detail\<rparr>, w2) \<and>
           save_bot_to_memory E \<lparr>name = nm, persona = req_persona req, max_length = req_max_length req\<rparr>
             (w\<lparr>bots := (bots w)(nm \<mapsto>
                  (BotInstance_init E \<lparr>name = nm, persona = req_persona req,
                     max_length = req_max_length req\<rparr>)\<lparr>history := h\<rparr>)\<rparr>) = (Inr (ok, detail), w2) \<and>
           bots w2 = (bots w)(nm \<mapsto>
                  (BotInstance_init E \<lparr>name = nm, persona = req_persona req,
                     max_length = req_max_length req\<rparr>)\<lparr>history := h\<rparr>)"
proof -
  let ?c = "\<lparr>name = nm, persona = req_persona req, max_length = req_max_length req\<rparr>"
  let ?w1 = "w\<lparr>bots := (bots w)(nm \<mapsto> (BotInstance_init E ?c)\<lparr>history := h\<rparr>)\<rparr>"
  obtain ok detail w2 where s: "save_bot_to_memory E ?c ?w1 = (Inr (ok, detail), w2)"
    using save_bot_to_memory_returns by blast
  have "bots w2 = bots ?w1" using save_bot_to_memory_bots[of E ?c ?w1] s by simp
  with s assms show ?thesis
    by (auto simp: create_bot_def create_bot_locked_def Let_def)
qed

lemma create_bot_returns:
  assumes "create_bot E req w = (Inr resp, w1)"
  shows "strip (req_name req) \<noteq> [] \<and> strip (req_name req) \<notin> dom (bots w) \<and>
         (\<exists>h. load_local_history (strip (req_name req)) w = Inr h)"
  using assms
  by (auto simp: create_bot_def create_bot_locked_def Let_def split: if_splits sum.splits prod.splits)

text \<open>The scenario's first step: the bot is created in an empty registry.\<close>

lemma helper_created:
  "\<exists>ok detail w2.
     create_bot offline_env helper_req empty_world =
       (Inr \<lparr>created = lit ''helper'', saved_to_memory = ok, memory_resp = detail\<rparr>, w2) \<and>
     bots w2 = [lit ''helper'' \<mapsto> helper_offline (JArr [])]"
proof -
  have c: "\<lparr>name = lit ''helper'', persona = req_persona helper_req,
             max_length = req_max_length helper_req\<rparr> = helper_cfg"
    by (simp add: helper_req_def helper_cfg_def)
  have i: "BotInstance_init offline_env helper_cfg = helper_offline (JArr [])"
    by (simp add: BotInstance_init_def load_model_def offline_env_def helper_offline_def)
  have "\<exists>ok detail w2.
     create_bot offline_env helper_req empty_world =
       (Inr \<lparr>created = lit ''helper'', saved_to_memory = ok, memory_resp = detail\<rparr>, w2) \<and>
     bots w2 = (bots empty_world)(lit ''helper'' \<mapsto> (BotInstance_init offline_env helper_cfg)\<lparr>history := JArr []\<rparr>)"
    using create_bot_fresh[of helper_req "lit ''helper''" empty_world "JArr []" offline_env]
    unfolding c
    by (auto simp add: strip_helper helper_req_def empty_world_def load_local_history_def)
  then show ?thesis by (simp add: i empty_world_def helper_offline_def)
qed

text \<open>For a name that is not registered the storage server is asked, under the name as
  given.\<close>

lemma deploy_bot_unregistered_sent:
  assumes "nm \<notin> dom (bots w)"
  shows "sent (snd (deploy_bot E nm w)) =
           sent w @ [GET (MEMORY_URL E @ lit ''/ml/load/'' @ nm @ lit ''.bot.json'')]"
proof -
  obtain v err w1 where l: "load_bot_from_memory E nm w = ((v, err), w1)"
    by (metis surj_pair)
  with load_bot_from_memory_world[of E nm w]
  have "sent w1 = sent w @ [GET (MEMORY_URL E @ lit ''/ml/load/'' @ nm @ lit ''.bot.json'')]" by simp
  with l assms show ?thesis
    by (auto simp: deploy_bot_def Let_def split: sum.splits)
qed

lemma deploy_bot_unregistered_not_already:
  assumes "nm \<notin> dom (bots w)"
  shows "fst (deploy_bot E nm w) \<noteq> Inr (already_deployed nm)"
proof -
  obtain v err w1 where l: "load_bot_from_memory E nm w = ((v, err), w1)"
    by (metis surj_pair)
  with assms show ?thesis
    by (auto simp: deploy_bot_def Let_def split: sum.splits)
qed

lemma deploy_bot_load_failure:
  assumes "load_local_history nm w = Inl e" and "nm \<notin> dom (bots w)"
  shows "isl (fst (deploy_bot E nm w)) \<and> bots (snd (deploy_bot E nm w)) = bots w \<and>
         files (snd (deploy_bot E nm w)) = files w \<and>
         (\<forall>v err c. fst (load_bot_from_memory E nm w) = (v, err) \<and> py_truthy v \<and>
              BotConfig_of v = Inr c \<longrightarrow> fst (deploy_bot E nm w) = Inl e)"
proof -
  obtain v err w1 where l: "load_bot_from_memory E nm w = ((v, err), w1)"
    by (metis surj_pair)
  with load_bot_from_memory_world[of E nm w]
  have w1: "w1 = w\<lparr>sent := sent w @ [GET (MEMORY_URL E @ lit ''/ml/load/'' @ nm @ lit ''.bot.json'')]\<rparr>"
    by simp
  then have h: "load_local_history nm w1 = Inl e"
    using assms(1) by (simp add: load_local_history_sent)
  from l h assms(2) w1 show ?thesis
    by (auto simp: deploy_bot_def Let_def split: sum.splits)
qed

lemma json_loads_helper_cfg:
  "json_loads (json_dumps (Some 2) (cfg_dict helper_cfg)) = Inr (cfg_dict helper_cfg)"
  by (simp add: json_loads_def json_dumps_def cfg_dict_def helper_cfg_def lit_def
      newline_indent_def item_separator_def encode_basestring_ascii_def escape_char_def
      str_int_def skip_ws_def is_ws_def scan_num replicate_num cons_result_def
      match_number_def int_part_def frac_part_def exp_part_def is_digit_def digits_val_def starts_with_def dict_def Let_def
      del: lit_eq_iff lit_eq_Nil_iff)

lemma load_helper_cfg:
  "fst (load_bot_from_memory serving_env (lit ''helper'') w) = (cfg_dict helper_cfg, None)"
  by (simp add: load_bot_from_memory_def serving_env_def offline_env_def Let_def
      json_loads_helper_cfg)

lemma BotConfig_of_helper_cfg:
  "py_truthy (cfg_dict helper_cfg)" "BotConfig_of (cfg_dict helper_cfg) = Inr helper_cfg"
  by (simp_all add: cfg_dict_def BotConfig_of_def helper_cfg_def)

lemma load_corrupt:
  "load_local_history (lit ''helper'') corrupt_world =
     Inl (JSONDecodeError (lit ''Unterminated string starting at''))"
  by (simp add: load_local_history_def corrupt_world_def json_loads_truncated)

text \<open>
  Two requests for one name, in any order of their steps: the name is registered exactly
  when one of them got through the block, and never both did.
\<close>

lemma create_bot_two_steps:
  "(case create_step E req Start w of (ph, w1) \<Rightarrow> create_step E req ph w1) =
     (Finished (fst (create_bot E req w)), snd (create_bot E req w))"
  by (auto simp: create_step_def create_bot_def create_bot_locked_def Let_def
      split: sum.splits prod.splits phase.splits)





subsection \<open>A chat turn\<close>

text \<open>When the call of the bound pipeline raises, \<open>chat\<close> raises the same exception and
  leaves the user entry in the history.\<close>

lemma chat_pipeline_raises:
  assumes "pipeline self = Some p" and "history self = JArr xs"
    and "p (full_prompt (cfg self) prompt) (max_length (cfg self)) = Inl e"
  shows "chat self prompt = (Inl e, self\<lparr>history := JArr (xs @ [user_entry prompt])\<rparr>)"
  using assms by (simp add: chat_def)

text \<open>The same when the pipeline returns no sequence at all.\<close>

lemma chat_pipeline_empty_output:
  assumes "pipeline self = Some p" and "history self = JArr xs"
    and "p (full_prompt (cfg self) prompt) (max_length (cfg self)) = Inr []"
  shows "chat self prompt =
           (Inl (IndexError (lit ''list index out of range'')),
            self\<lparr>history := JArr (xs @ [user_entry prompt])\<rparr>)"
  using assms by (simp add: chat_def generated_reply_def)

lemma chat_returns:
  assumes "chat self p = (Inr r, self')"
  shows "\<exists>xs. history self = JArr xs \<and>
              self' = self\<lparr>history := JArr (xs @ [user_entry p, bot_entry r])\<rparr>"
proof (cases "history self")
  case (JArr xs)
  with assms show ?thesis
    by (auto simp: chat_def Let_def split: sum.splits option.splits)
qed (use assms in \<open>simp_all add: chat_def\<close>)

lemma push_history_absorbed:
  assumes "history inst = JArr h" and "writable E (history_path nm)"
  shows "\<exists>w3. try_except (push_history E nm inst w) (\<lambda>e w'. (Inr (), w')) = (Inr (), w3) \<and>
           bots w3 = bots w \<and>
           files w3 = (files w)(history_path nm \<mapsto> json_dumps None (JArr h))"
  using assms
  by (auto simp: push_history_def try_except_def get_history_def open_w_def read_file_def
      Let_def split: sum.splits)

lemma bot_chat_reply:
  assumes "body (lit ''message'') = Some msg" and "msg \<noteq> []" and "bots w nm = Some inst"
    and "chat inst msg = (Inr reply, inst1)" and "writable E (history_path nm)"
  shows "fst (bot_chat E nm body w) = Inr reply \<and>
         bots (snd (bot_chat E nm body w)) = (bots w)(nm \<mapsto> inst1) \<and>
         files (snd (bot_chat E nm body w)) =
           (files w)(history_path nm \<mapsto> json_dumps None (history inst1))"
proof -
  from chat_returns[OF assms(4)] obtain h where h: "history inst1 = JArr h" by auto
  let ?w1 = "w\<lparr>bots := (bots w)(nm \<mapsto> inst1)\<rparr>"
  let ?w2 = "?w1\<lparr>files := (files ?w1)(history_path nm \<mapsto> json_dumps (Some 2) (JArr h))\<rparr>"
  have p: "persist_local_history E nm (JArr h) ?w1 = (Inr (), ?w2)"
    using assms(5) by (simp add: persist_local_history_def write_file_def open_w_def)
  from push_history_absorbed[OF h assms(5), of ?w2] obtain w3 where
    t: "try_except (push_history E nm inst1 ?w2) (\<lambda>e w'. (Inr (), w')) = (Inr (), w3)"
    and b: "bots w3 = bots ?w2"
    and f: "files w3 = (files ?w2)(history_path nm \<mapsto> json_dumps None (JArr h))"
    by blast
  have "bot_chat E nm body w = (Inr reply, w3)"
    using assms(1-4) h p t by (simp add: bot_chat_def get_history_def Let_def)
  with b f h show ?thesis by simp
qed

lemma bot_chat_unregistered:
  assumes "nm \<notin> dom (bots w)" and "body (lit ''message'') = Some msg" and "msg \<noteq> []"
  shows "bot_chat E nm body w = (Inl (HTTPException 404 (lit ''bot not deployed'')), w)"
proof -
  from assms(1) have "bots w nm = None" by auto
  with assms(2,3) show ?thesis by (simp add: bot_chat_def)
qed

lemma chats_returns:
  "history self = JArr xs \<Longrightarrow> chats self ps = (Inr rs, self') \<Longrightarrow>
     length rs = length ps \<and> self' = self\<lparr>history := JArr (xs @ turns ps rs)\<rparr>"
proof (induction ps arbitrary: self xs rs)
  case Nil
  then show ?case by simp
next
  case (Cons p ps)
  from Cons.prems(2) obtain r self1 where c: "chat self p = (Inr r, self1)"
    by (auto split: sum.splits prod.splits)
  from Cons.prems(2) c obtain rs' where rest: "chats self1 ps = (Inr rs', self')" and rs: "rs = r # rs'"
    by (auto split: sum.splits prod.splits)
  from chat_returns[OF c] Cons.prems(1)
  have s1: "self1 = self\<lparr>history := JArr (xs @ [user_entry p, bot_entry r])\<rparr>" by auto
  then have h1: "history self1 = JArr (xs @ [user_entry p, bot_entry r])" by simp
  from Cons.IH[OF h1 rest] s1 rs show ?case by simp
qed

lemma length_turns: "length rs = length ps \<Longrightarrow> length (turns ps rs) = 2 * length ps"
  by (induction ps rs rule: turns.induct) auto

lemma nth_turns:
  "length rs = length ps \<Longrightarrow> i < length ps \<Longrightarrow>
     turns ps rs ! (2 * i) = user_entry (ps ! i) \<and> turns ps rs ! (2 * i + 1) = bot_entry (rs ! i)"
proof (induction ps rs arbitrary: i rule: turns.induct)
  case (1 p ps r rs)
  then show ?case by (cases i) auto
qed auto

lemma chats_offline:
  "pipeline self = None \<Longrightarrow> history self = JArr xs \<Longrightarrow>
     chats self ps =
       (Inr (replicate (length ps) fallback_reply),
        self\<lparr>history := JArr (xs @ turns ps (replicate (length ps) fallback_reply))\<rparr>)"
proof (induction ps arbitrary: self xs)
  case Nil
  then show ?case by simp
next
  case (Cons p ps)
  let ?s1 = "self\<lparr>history := JArr (xs @ [user_entry p, bot_entry fallback_reply])\<rparr>"
  have c: "chat self p = (Inr fallback_reply, ?s1)"
    using Cons.prems by (simp add: chat_def)
  have "chats ?s1 ps = (Inr (replicate (length ps) fallback_reply),
        ?s1\<lparr>history := JArr ((xs @ [user_entry p, bot_entry fallback_reply]) @
           turns ps (replicate (length ps) fallback_reply))\<rparr>)"
    by (rule Cons.IH) (use Cons.prems in simp_all)
  with c show ?case by simp
qed

section \<open>The agent\<close>

text \<open>
  C3. When no pipeline is bound, \<open>chat\<close> on an agent whose history is a list returns the
  fixed fallback string for every prompt, and the history grows by exactly two entries:
  the user entry with the prompt, then the bot entry with the fallback.
\<close>

theorem chat_unavailable_fallback:
  assumes "pipeline self = None" and "history self = JArr xs"
  shows "chat self prompt =
           (Inr fallback_reply,
            self\<lparr>history := JArr (xs @ [user_entry prompt, bot_entry fallback_reply])\<rparr>)
         \<and> fallback_reply = lit ''Model not available.''"
  using assms by (simp add: chat_def fallback_reply_def)

theorem chat_unavailable_fallback_witness:
  "chat (helper_offline (JArr [])) (lit ''hi'') =
     (Inr (lit ''Model not available.''),
      helper_offline (JArr [user_entry (lit ''hi''), bot_entry (lit ''Model not available.'')]))"
  using chat_unavailable_fallback [of "helper_offline (JArr [])" "[]" "lit ''hi''"]
  by (simp add: helper_offline_def)

text \<open>
  C1. \<open>chat\<close> guards only against a pipeline that could not be built. When the call
  of a bound pipeline raises, nothing in \<open>chat\<close> catches it: the exception reaches
  the caller, no fallback reply is produced, and the user entry appended before the
  call stays in the history without a bot entry.
\<close>

theorem chat_pipeline_exception_propagates:
  "chat (helper_raising (JArr [])) (lit ''hi'') =
     (Inl (External (lit ''Input length of input_ids exceeds max_length'')),
      helper_raising (JArr [user_entry (lit ''hi'')]))"
  by (simp add: chat_def helper_raising_def)

text \<open>
  C4, as amended. Take an agent whose history is a list of \<open>k\<close> entries. If \<open>N\<close>
  chat calls made one after the other all return, \<open>get_history\<close> afterwards returns
  those \<open>k\<close> entries followed by exactly \<open>2N\<close> new ones in call order: entry
  \<open>k + 2i\<close> is the user entry with the prompt of call \<open>i\<close> and entry \<open>k + 2i + 1\<close>
  is the bot entry with its reply. With no pipeline bound all \<open>N\<close> calls return, each
  with the fallback reply. For an agent that starts with the empty history these are
  exactly \<open>2N\<close> entries.
\<close>

theorem chats_history_appended:
  assumes "history self = JArr xs"
  shows "(pipeline self = None \<longrightarrow> fst (chats self ps) = Inr (replicate (length ps) fallback_reply)) \<and>
         (\<forall>rs self'. chats self ps = (Inr rs, self') \<longrightarrow>
            length rs = length ps \<and>
            get_history self' = Inr (xs @ turns ps rs) \<and>
            length (xs @ turns ps rs) = length xs + 2 * length ps \<and>
            (\<forall>i<length ps.
               (xs @ turns ps rs) ! (length xs + 2 * i) = user_entry (ps ! i) \<and>
               (xs @ turns ps rs) ! (length xs + 2 * i + 1) = bot_entry (rs ! i)))"
proof (intro conjI impI allI)
  assume "pipeline self = None"
  then show "fst (chats self ps) = Inr (replicate (length ps) fallback_reply)"
    using chats_offline[OF _ assms] by simp
next
  fix rs self' assume c: "chats self ps = (Inr rs, self')"
  from chats_returns[OF assms c]
  have l: "length rs = length ps" and s: "self' = self\<lparr>history := JArr (xs @ turns ps rs)\<rparr>"
    by simp_all
  show "length rs = length ps" by (rule l)
  show "get_history self' = Inr (xs @ turns ps rs)" using s by (simp add: get_history_def)
  show "length (xs @ turns ps rs) = length xs + 2 * length ps" using length_turns[OF l] by simp
  fix i assume "i < length ps"
  from nth_turns[OF l this]
  show "(xs @ turns ps rs) ! (length xs + 2 * i) = user_entry (ps ! i)"
    and "(xs @ turns ps rs) ! (length xs + 2 * i + 1) = bot_entry (rs ! i)"
    by (simp_all add: nth_append add.assoc)
qed

theorem chats_history_appended_witness:
  "fst (chats (helper_offline (JArr [])) [lit ''hi'', lit ''bye'']) =
     Inr [lit ''Model not available.'', lit ''Model not available.''] \<and>
   get_history (snd (chats (helper_offline (JArr [])) [lit ''hi'', lit ''bye''])) =
     Inr [user_entry (lit ''hi''), bot_entry (lit ''Model not available.''),
          user_entry (lit ''bye''), bot_entry (lit ''Model not available.'')]"
proof -
  have h: "history (helper_offline (JArr [])) = JArr []" by (simp add: helper_offline_def)
  note T = chats_history_appended[OF h, of "[lit ''hi'', lit ''bye'']"]
  from T[THEN conjunct1]
  have f: "fst (chats (helper_offline (JArr [])) [lit ''hi'', lit ''bye'']) =
      Inr [lit ''Model not available.'', lit ''Model not available.'']"
    by (simp add: helper_offline_def fallback_reply_def)
  then have c: "chats (helper_offline (JArr [])) [lit ''hi'', lit ''bye''] =
      (Inr [lit ''Model not available.'', lit ''Model not available.''],
       snd (chats (helper_offline (JArr [])) [lit ''hi'', lit ''bye'']))"
    by (metis prod.collapse)
  from T[THEN conjunct2, rule_format, OF c] f show ?thesis by simp
qed

text \<open>
  The claim as stated, exactly \<open>2N\<close> entries for every agent, fails for an agent that
  \<open>create_bot\<close> seeded from the history file a previous run left: create the bot
  where that file exists, chat once, read the history. It has four entries.
\<close>

theorem seeded_history_counterexample:
  "bot_history (lit ''helper'')
     (snd (bot_chat offline_env (lit ''helper'') hi_body
            (snd (create_bot offline_env helper_req seeded_world)))) =
     Inr [user_entry (lit ''old''), bot_entry (lit ''Model not available.''),
          user_entry (lit ''hi''), bot_entry (lit ''Model not available.'')] \<and>
   length [user_entry (lit ''old''), bot_entry (lit ''Model not available.''),
          user_entry (lit ''hi''), bot_entry (lit ''Model not available.'')] \<noteq>
     2 * length [lit ''hi'']"
proof -
  let ?old = "JArr [user_entry (lit ''old''), bot_entry (lit ''Model not available.'')]"
  have v: "list_all valid_entry old_history"
    by (simp add: old_history_def valid_entry_def fallback_reply_def lit_def scalar_def
        del: lit_eq_iff lit_eq_Nil_iff)
  have o: "JArr (map entry_json old_history) = ?old"
    by (simp add: old_history_def user_entry_json bot_entry_json fallback_reply_def)
  have l: "load_local_history (lit ''helper'') seeded_world = Inr ?old"
    using json_loads_dumps_history[OF v, of None]
    by (simp add: load_local_history_def seeded_world_def o)
  have n: "strip (req_name helper_req) = lit ''helper''" by (simp add: helper_req_def strip_helper)
  have i: "BotInstance_init offline_env helper_cfg = helper_offline (JArr [])"
    by (simp add: BotInstance_init_def load_model_def offline_env_def helper_offline_def)
  from create_bot_fresh[OF n _ _ l, of offline_env]
  obtain resp w1 where c: "create_bot offline_env helper_req seeded_world = (Inr resp, w1)"
    and b: "bots w1 (lit ''helper'') = Some (helper_offline ?old)"
    by (auto simp: seeded_world_def helper_req_cfg i helper_offline_def)
  have ch: "chat (helper_offline ?old) (lit ''hi'') =
      (Inr (lit ''Model not available.''),
       helper_offline (JArr [user_entry (lit ''old''), bot_entry (lit ''Model not available.''),
          user_entry (lit ''hi''), bot_entry (lit ''Model not available.'')]))"
    by (simp add: chat_def helper_offline_def fallback_reply_def)
  have "bots (snd (bot_chat offline_env (lit ''helper'') hi_body w1)) (lit ''helper'') =
      Some (helper_offline (JArr [user_entry (lit ''old''), bot_entry (lit ''Model not available.''),
          user_entry (lit ''hi''), bot_entry (lit ''Model not available.'')]))"
    using bot_chat_reply[where body = hi_body and E = offline_env, OF _ _ b ch]
    by (simp add: hi_body_def offline_env_def)
  then show ?thesis
    using c by (simp add: bot_history_def get_history_def helper_offline_def)
qed

section \<open>Local persistence\<close>





section \<open>The registry\<close>



text \<open>
  C5. Deploying a name that is already registered returns the already deployed answer
  and changes nothing: no second agent, the same registry, the same histories and
  configurations, and no request to the storage server.
\<close>

theorem deploy_bot_already_registered:
  assumes "nm \<in> dom (bots w)"
  shows "deploy_bot E nm w = (Inr (already_deployed nm), w)"
  using assms by (simp add: deploy_bot_def)

theorem deploy_bot_already_registered_witness:
  "deploy_bot offline_env (lit ''helper'') (snd (create_bot offline_env helper_req empty_world)) =
     (Inr (already_deployed (lit ''helper'')), snd (create_bot offline_env helper_req empty_world))"
proof -
  from helper_created obtain ok detail w2 where
    c: "create_bot offline_env helper_req empty_world =
       (Inr \<lparr>created = lit ''helper'', saved_to_memory = ok, memory_resp = detail\<rparr>, w2)"
    and b: "bots w2 = [lit ''helper'' \<mapsto> helper_offline (JArr [])]" by blast
  have d: "lit ''helper'' \<in> dom (bots w2)" by (simp add: b)
  from deploy_bot_already_registered[OF d, of offline_env] c show ?thesis by simp
qed

text \<open>
  C9. \<open>create_bot\<close> works on the stripped name. A name that strips to the empty string
  is refused with status 400, name required, and nothing changes. When a create
  succeeds, the answer names the stripped name and that is the one key added to the
  registry; any later create whose name strips to the same string fails with bot
  already exists and changes nothing. The other handlers look the name up as given:
  for any other name that was not registered before, the padded one included, history
  and chat answer 404, bot not deployed, and deploy does not answer already deployed
  but asks the storage server for the configuration under the name as given.
\<close>

theorem create_bot_strips_name:
  "(strip (req_name req) = [] \<longrightarrow>
      create_bot E req w = (Inl (HTTPException 400 (lit ''name required'')), w)) \<and>
   (\<forall>resp w1. create_bot E req w = (Inr resp, w1) \<longrightarrow>
      created resp = strip (req_name req) \<and>
      dom (bots w1) = insert (strip (req_name req)) (dom (bots w)) \<and>
      (\<forall>E' req'. strip (req_name req') = strip (req_name req) \<longrightarrow>
         create_bot E' req' w1 = (Inl (HTTPException 400 (lit ''bot already exists'')), w1)) \<and>
      (\<forall>nm. nm \<noteq> strip (req_name req) \<and> nm \<notin> dom (bots w) \<longrightarrow>
         bot_history nm w1 = Inl (HTTPException 404 (lit ''bot not deployed'')) \<and>
         (\<forall>E' body msg. body (lit ''message'') = Some msg \<and> msg \<noteq> [] \<longrightarrow>
            bot_chat E' nm body w1 = (Inl (HTTPException 404 (lit ''bot not deployed'')), w1)) \<and>
         (\<forall>E'. fst (deploy_bot E' nm w1) \<noteq> Inr (already_deployed nm) \<and>
            sent (snd (deploy_bot E' nm w1)) =
              sent w1 @ [GET (MEMORY_URL E' @ lit ''/ml/load/'' @ nm @ lit ''.bot.json'')])))"
proof (intro conjI impI allI)
  assume "strip (req_name req) = []"
  then show "create_bot E req w = (Inl (HTTPException 400 (lit ''name required'')), w)"
    by (simp add: create_bot_def)
next
  fix resp w1 assume c: "create_bot E req w = (Inr resp, w1)"
  let ?nm = "strip (req_name req)"
  from create_bot_returns[OF c] obtain h where
    ne: "?nm \<noteq> []" and fresh: "?nm \<notin> dom (bots w)" and h: "load_local_history ?nm w = Inr h"
    by blast
  from create_bot_fresh[OF refl ne fresh h, of E] c
  have r: "created resp = ?nm" and b: "dom (bots w1) = insert ?nm (dom (bots w))"
    by auto
  show "created resp = ?nm" by (rule r)
  show "dom (bots w1) = insert ?nm (dom (bots w))" by (rule b)
  {
    fix E' and req' :: CreateReq assume "strip (req_name req') = ?nm"
    with ne b show "create_bot E' req' w1 = (Inl (HTTPException 400 (lit ''bot already exists'')), w1)"
      by (simp add: create_bot_def create_bot_locked_def)
  }
  fix nm assume "nm \<noteq> ?nm \<and> nm \<notin> dom (bots w)"
  with b have nd: "nm \<notin> dom (bots w1)" by simp
  then have "bots w1 nm = None" by auto
  then show "bot_history nm w1 = Inl (HTTPException 404 (lit ''bot not deployed''))"
    by (simp add: bot_history_def)
  {
    fix E' and body :: "pystr \<rightharpoonup> pystr" and msg
    assume "body (lit ''message'') = Some msg \<and> msg \<noteq> []"
    with nd show "bot_chat E' nm body w1 = (Inl (HTTPException 404 (lit ''bot not deployed'')), w1)"
      by (simp add: bot_chat_unregistered)
  }
  fix E'
  show "fst (deploy_bot E' nm w1) \<noteq> Inr (already_deployed nm)"
    by (rule deploy_bot_unregistered_not_already[OF nd])
  show "sent (snd (deploy_bot E' nm w1)) =
      sent w1 @ [GET (MEMORY_URL E' @ lit ''/ml/load/'' @ nm @ lit ''.bot.json'')]"
    by (rule deploy_bot_unregistered_sent[OF nd])
qed

theorem create_bot_strips_name_witness:
  "create_bot offline_env blank_req empty_world =
     (Inl (HTTPException 400 (lit ''name required'')), empty_world) \<and>
   map_sum id created (fst (create_bot offline_env padded_req empty_world)) = Inr (lit ''helper'') \<and>
   dom (bots (snd (create_bot offline_env padded_req empty_world))) = {lit ''helper''} \<and>
   fst (create_bot offline_env helper_req (snd (create_bot offline_env padded_req empty_world))) =
     Inl (HTTPException 400 (lit ''bot already exists'')) \<and>
   bot_history (lit ''  helper '') (snd (create_bot offline_env padded_req empty_world)) =
     Inl (HTTPException 404 (lit ''bot not deployed'')) \<and>
   fst (bot_chat offline_env (lit ''  helper '') hi_body
          (snd (create_bot offline_env padded_req empty_world))) =
     Inl (HTTPException 404 (lit ''bot not deployed''))"
proof -
  note T = create_bot_strips_name[where E = offline_env and w = empty_world]
  have n: "strip (req_name padded_req) = lit ''helper''" "strip (req_name blank_req) = []"
    "strip (req_name helper_req) = lit ''helper''"
    by (simp_all add: padded_req_def blank_req_def strip_padded helper_req_def strip_helper)
  have blank: "create_bot offline_env blank_req empty_world =
     (Inl (HTTPException 400 (lit ''name required'')), empty_world)"
    using T[where req = blank_req, THEN conjunct1] n by simp
  from create_bot_fresh[OF n(1), of empty_world "JArr []" offline_env]
  obtain resp w1 where c: "create_bot offline_env padded_req empty_world = (Inr resp, w1)"
    by (auto simp: empty_world_def load_local_history_def)
  note P = T[where req = padded_req, THEN conjunct2, rule_format, OF c]
  from P n have r: "created resp = lit ''helper''"
    and d: "dom (bots w1) = {lit ''helper''}" by (simp_all add: empty_world_def)
  from P n(1,3) have again:
    "create_bot offline_env helper_req w1 = (Inl (HTTPException 400 (lit ''bot already exists'')), w1)"
    by simp
  have other: "lit ''  helper '' \<noteq> strip (req_name padded_req) \<and>
      lit ''  helper '' \<notin> dom (bots empty_world)"
    by (simp add: n empty_world_def)
  from P other have h: "bot_history (lit ''  helper '') w1 =
      Inl (HTTPException 404 (lit ''bot not deployed''))" by blast
  from P other have "\<forall>E' body msg. body (lit ''message'') = Some msg \<and> msg \<noteq> [] \<longrightarrow>
            bot_chat E' (lit ''  helper '') body w1 = (Inl (HTTPException 404 (lit ''bot not deployed'')), w1)"
    by blast
  then have ch: "bot_chat offline_env (lit ''  helper '') hi_body w1 =
      (Inl (HTTPException 404 (lit ''bot not deployed'')), w1)"
    by (simp add: hi_body_def)
  from blank c r d again h ch show ?thesis by simp
qed

text \<open>
  C10. When the load of the local history raises, the agent that was already built is
  dropped and the registry is as before. For a create of a new, non-empty name the
  exception of the load is what the caller gets and the whole state is unchanged. For
  a deploy of an unregistered name the call fails, registry and files are unchanged,
  and when the storage server delivered a usable configuration the exception of the
  load is what the caller gets.
\<close>

theorem history_load_failure_leaves_registry:
  assumes "load_local_history nm w = Inl e"
  shows "(strip (req_name req) = nm \<and> nm \<noteq> [] \<and> nm \<notin> dom (bots w) \<longrightarrow>
            create_bot E req w = (Inl e, w)) \<and>
         (nm \<notin> dom (bots w) \<longrightarrow>
            isl (fst (deploy_bot E nm w)) \<and> bots (snd (deploy_bot E nm w)) = bots w \<and>
            files (snd (deploy_bot E nm w)) = files w \<and>
            (\<forall>v err c. fst (load_bot_from_memory E nm w) = (v, err) \<and> py_truthy v \<and>
                 BotConfig_of v = Inr c \<longrightarrow> fst (deploy_bot E nm w) = Inl e))"
proof (intro conjI impI)
  assume "strip (req_name req) = nm \<and> nm \<noteq> [] \<and> nm \<notin> dom (bots w)"
  with assms show "create_bot E req w = (Inl e, w)"
    by (auto simp: create_bot_def create_bot_locked_def Let_def)
next
  assume n: "nm \<notin> dom (bots w)"
  note d = deploy_bot_load_failure[OF assms n, of E]
  show "isl (fst (deploy_bot E nm w))" using d by blast
  show "bots (snd (deploy_bot E nm w)) = bots w" using d by blast
  show "files (snd (deploy_bot E nm w)) = files w" using d by blast
  show "\<forall>v err c. fst (load_bot_from_memory E nm w) = (v, err) \<and> py_truthy v \<and>
                 BotConfig_of v = Inr c \<longrightarrow> fst (deploy_bot E nm w) = Inl e"
    using d by blast
qed

theorem history_load_failure_leaves_registry_witness:
  "create_bot offline_env helper_req corrupt_world =
     (Inl (JSONDecodeError (lit ''Unterminated string starting at'')), corrupt_world) \<and>
   fst (deploy_bot serving_env (lit ''helper'') corrupt_world) =
     Inl (JSONDecodeError (lit ''Unterminated string starting at'')) \<and>
   bots (snd (deploy_bot serving_env (lit ''helper'') corrupt_world)) = Map.empty"
proof -
  have n: "strip (req_name helper_req) = lit ''helper'' \<and> lit ''helper'' \<noteq> [] \<and>
      lit ''helper'' \<notin> dom (bots corrupt_world)"
    by (simp add: helper_req_def strip_helper corrupt_world_def)
  note T = history_load_failure_leaves_registry[OF load_corrupt]
  from T[where req = helper_req and E = offline_env, THEN conjunct1] n
  have c: "create_bot offline_env helper_req corrupt_world =
     (Inl (JSONDecodeError (lit ''Unterminated string starting at'')), corrupt_world)"
    by blast
  from n have n': "lit ''helper'' \<notin> dom (bots corrupt_world)" by simp
  note D = T[where E = serving_env and req = helper_req, THEN conjunct2, rule_format, OF n']
  from D have b: "bots (snd (deploy_bot serving_env (lit ''helper'') corrupt_world)) = Map.empty"
    by (simp add: corrupt_world_def)
  from D load_helper_cfg[of corrupt_world] BotConfig_of_helper_cfg
  have "fst (deploy_bot serving_env (lit ''helper'') corrupt_world) =
     Inl (JSONDecodeError (lit ''Unterminated string starting at''))"
    by blast
  with c b show ?thesis by simp
qed

section \<open>Failures of the storage server\<close>



end
